theory Spec2Isabelle
  imports Main
begin

section \<open>MySQL view builders (mysql-core/view.ts)\<close>

text \<open>
  The module declares views through two fluent builders. A builder accumulates dialect
  options in a mutable \<open>ViewBuilderConfig\<close> object and a terminal operation
  (\<open>as\<close>, \<open>existing\<close>) allocates a \<open>MySqlView\<close> and returns it behind a
  JavaScript \<open>Proxy\<close>. Objects that are mutated or shared by reference live in an explicit
  store and are named by their address; everything else is a value.
\<close>

subsection \<open>Dialect options\<close>

datatype algorithm_t = Algorithm_undefined | Algorithm_merge | Algorithm_temptable

datatype sqlSecurity_t = Security_definer | Security_invoker

datatype withCheckOption_t = Cascaded | Local

text \<open>\<open>interface ViewBuilderConfig\<close>: every field is optional, \<open>None\<close> is \<open>undefined\<close>.\<close>

record ViewBuilderConfig =
  algorithm :: "algorithm_t option"
  definer :: "string option"
  sqlSecurity :: "sqlSecurity_t option"
  withCheckOption :: "withCheckOption_t option"

text \<open>The object literal \<open>{}\<close> every builder starts from.\<close>

definition empty_config :: ViewBuilderConfig where
  "empty_config =
     \<lparr>algorithm = None, definer = None, sqlSecurity = None, withCheckOption = None\<rparr>"

subsection \<open>Collaborators of the query layer\<close>

text \<open>
  Modelled from the spec: the \<open>SQL\<close> class of \<open>~/sql\<close> is not part of the module. The
  spec describes inlining as substituting bound parameter placeholders with their literal
  values in the query's textual form, so a query is a list of chunks, a chunk being text
  or a bound parameter, and \<open>inlineParams\<close> turns each parameter into text.
\<close>

datatype SQLChunk = StringChunk string | Param string

type_synonym SQL = "SQLChunk list"

fun inline_chunk :: "SQLChunk \<Rightarrow> SQLChunk" where
  "inline_chunk (Param v) = StringChunk v"
| "inline_chunk (StringChunk t) = StringChunk t"

definition inlineParams :: "SQL \<Rightarrow> SQL" where
  "inlineParams q = map inline_chunk q"

text \<open>
  Modelled from the spec: column builders and columns (\<open>./columns/common\<close>,
  \<open>~/column-builder\<close>) are not part of the module. A column builder carries the
  declared column; building it against a table yields the column descriptor, which
  remembers the table it belongs to (its current name and its original name).
\<close>

record MySqlColumnBuilder =
  builder_name :: string
  builder_dataType :: string
  builder_notNull :: bool

record MySqlColumn =
  column_name :: string
  column_dataType :: string
  column_notNull :: bool
  table_name :: string
  table_originalName :: string

definition build :: "MySqlColumnBuilder \<Rightarrow> string \<Rightarrow> MySqlColumn" where
  "build b t =
     \<lparr>column_name = builder_name b, column_dataType = builder_dataType b,
      column_notNull = builder_notNull b, table_name = t, table_originalName = t\<rparr>"

text \<open>
  A selected field is a column, a raw SQL expression, or a SQL expression with an alias
  (\<open>SQL.Aliased\<close>). A selection is a JavaScript object: its own keys in order, each with
  its value.
\<close>

datatype SelectedField =
  ColumnField MySqlColumn
| SqlField SQL
| AliasedSqlField SQL string

type_synonym Selection = "(string \<times> SelectedField) list"

text \<open>
  Modelled from the spec: \<open>mysqlTable\<close> (\<open>./table\<close>) and \<open>getTableColumns\<close>
  (\<open>~/utils\<close>) are not part of the module. The spec says the column builders are
  resolved into column descriptors by building them against a synthetic table of the
  same name, and that the realized columns are what the builder stores.
\<close>

record MySqlTable =
  tableName :: string
  tableColumns :: Selection

definition mysqlTable :: "string \<Rightarrow> (string \<times> MySqlColumnBuilder) list \<Rightarrow> MySqlTable" where
  "mysqlTable n cols =
     \<lparr>tableName = n, tableColumns = map (\<lambda>(k, b). (k, ColumnField (build b n))) cols\<rparr>"

definition getTableColumns :: "MySqlTable \<Rightarrow> Selection" where
  "getTableColumns t = tableColumns t"

text \<open>
  Modelled from the spec: a \<open>TypedQueryBuilder\<close> (\<open>~/query-builders/query-builder\<close>)
  is a query object exposing its selected fields and its SQL; a \<open>QueryBuilder\<close>
  (\<open>./query-builders\<close>) is the object handed to a query-producing function. Only its
  identity matters here: the n-th instance ever constructed is \<open>QueryBuilder n\<close>.
\<close>

record TypedQueryBuilder =
  getSelectedFields :: Selection
  getSQL :: SQL

datatype QueryBuilder = QueryBuilder nat

text \<open>The argument of \<open>ViewBuilder.as\<close>: a query, or a function producing one.\<close>

datatype QueryArg =
  Query TypedQueryBuilder
| Factory "QueryBuilder \<Rightarrow> TypedQueryBuilder"

subsection \<open>The selection proxy\<close>

text \<open>
  Modelled from the spec: \<open>SelectionProxyHandler\<close> (\<open>~/subquery\<close>) is not part of the
  module. Its options are \<open>alias\<close> (the field \<open>aliasName\<close> here), \<open>sqlBehavior\<close>,
  \<open>sqlAliasedBehavior\<close> and \<open>replaceOriginalName\<close>. The spec names the values \<open>error\<close> and \<open>alias\<close> and leaves the
  other value of each behaviour open; it is one more constructor here.
\<close>

datatype sqlBehavior_t = Behavior_sql | Behavior_error

datatype sqlAliasedBehavior_t = AliasedBehavior_sql | AliasedBehavior_alias

record SelectionProxyHandler =
  aliasName :: string
  sqlBehavior :: sqlBehavior_t
  sqlAliasedBehavior :: sqlAliasedBehavior_t
  replaceOriginalName :: bool

text \<open>
  \<open>new Proxy(target, handler)\<close> only pairs the target with the handler: no trap of the
  handler runs until a property of the proxy is read.
\<close>

datatype 't Proxy = Proxy (target: 't) (handler: SelectionProxyHandler)

datatype error = UnaliasedSqlField string

text \<open>
  Modelled from the spec: the \<open>get\<close> trap of the handler, run when field \<open>prop\<close> of a
  proxied selection is read. A raw SQL field without an alias fails under
  \<open>sqlBehavior = error\<close>; an aliased SQL field is exposed under its alias; a column is
  exposed as a column of the alias, its original table name replaced as well when
  \<open>replaceOriginalName\<close> is set. A key the selection does not have reads as
  \<open>undefined\<close>.
\<close>

definition alias_column :: "SelectionProxyHandler \<Rightarrow> MySqlColumn \<Rightarrow> MySqlColumn" where
  "alias_column h c =
     c\<lparr>table_name := aliasName h,
       table_originalName := (if replaceOriginalName h then aliasName h else table_originalName c)\<rparr>"

fun resolve_field :: "SelectionProxyHandler \<Rightarrow> string \<Rightarrow> SelectedField \<Rightarrow> error + SelectedField" where
  "resolve_field h prop (AliasedSqlField e a) =
     (if sqlAliasedBehavior h = AliasedBehavior_sql then Inr (SqlField e)
      else Inr (AliasedSqlField e a))"
| "resolve_field h prop (SqlField e) =
     (if sqlBehavior h = Behavior_sql then Inr (SqlField e)
      else Inl (UnaliasedSqlField prop))"
| "resolve_field h prop (ColumnField c) = Inr (ColumnField (alias_column h c))"

definition SelectionProxyHandler_get ::
  "SelectionProxyHandler \<Rightarrow> Selection \<Rightarrow> string \<Rightarrow> error + SelectedField option" where
  "SelectionProxyHandler_get h sel prop =
     (case map_of sel prop of
        None \<Rightarrow> Inr None
      | Some v \<Rightarrow> (case resolve_field h prop v of Inl e \<Rightarrow> Inl e | Inr v' \<Rightarrow> Inr (Some v')))"

text \<open>
  The \<open>selectedFields\<close> of a view are either a plain selection (the manual builder stores
  its columns as they are) or a selection behind a proxy (the query-derived builder).
  Reading the keys of a proxy with only a \<open>get\<close> trap reads the keys of its target.
\<close>

datatype SelectedFields =
  PlainSelection Selection
| ProxiedSelection "Selection Proxy"

fun keys :: "SelectedFields \<Rightarrow> string list" where
  "keys (PlainSelection sel) = map fst sel"
| "keys (ProxiedSelection p) = map fst (target p)"

fun get_field :: "SelectedFields \<Rightarrow> string \<Rightarrow> error + SelectedField option" where
  "get_field (PlainSelection sel) prop = Inr (map_of sel prop)"
| "get_field (ProxiedSelection p) prop = SelectionProxyHandler_get (handler p) (target p) prop"

subsection \<open>The store\<close>

type_synonym ref = nat

text \<open>
  Modelled from the spec: the base class \<open>View\<close> (\<open>~/view\<close>) is not part of the
  module; a view descriptor holds the name, schema, selectedFields and query it was
  constructed with. \<open>class MySqlView\<close> adds the slot \<open>[MySqlViewConfig]\<close>, which holds
  the reference to a \<open>ViewBuilderConfig\<close> object it was given, or \<open>undefined\<close>.
\<close>

record MySqlView =
  view_name :: string
  view_schema :: "string option"
  selectedFields :: SelectedFields
  query :: "SQL option"
  MySqlViewConfig :: "ref option"

text \<open>
  The store holds the \<open>ViewBuilderConfig\<close> objects and the \<open>MySqlView\<close> objects by
  address; \<open>next_ref\<close> is the next address to allocate. \<open>query_builders\<close> counts the
  \<open>QueryBuilder\<close> instances constructed so far and \<open>factory_calls\<close> records, in order,
  the argument of every call of a query-producing function.
\<close>

record store =
  configs :: "ref \<Rightarrow> ViewBuilderConfig"
  views :: "ref \<Rightarrow> MySqlView option"
  next_ref :: ref
  query_builders :: nat
  factory_calls :: "QueryBuilder list"

definition QueryBuilder_new :: "store \<Rightarrow> QueryBuilder \<times> store" where
  "QueryBuilder_new s =
     (QueryBuilder (query_builders s), s\<lparr>query_builders := Suc (query_builders s)\<rparr>)"

text \<open>
  The \<open>MySqlView\<close> constructor: \<open>super(config)\<close> stores the four fields of \<open>config\<close>,
  then \<open>this[MySqlViewConfig] = mysqlConfig\<close> stores the reference it was given.
\<close>

definition MySqlView_new ::
  "ref option \<Rightarrow> string \<Rightarrow> string option \<Rightarrow> SelectedFields \<Rightarrow> SQL option \<Rightarrow> store \<Rightarrow> ref \<times> store" where
  "MySqlView_new mysqlConfig n sch sel q s =
     (next_ref s,
      s\<lparr>views := (views s)(next_ref s \<mapsto>
           \<lparr>view_name = n, view_schema = sch, selectedFields = sel, query = q,
            MySqlViewConfig = mysqlConfig\<rparr>),
        next_ref := Suc (next_ref s)\<rparr>)"

subsection \<open>ViewBuilderCore\<close>

text \<open>
  A builder holds its name, its schema and a reference to its own configuration object,
  allocated as \<open>{}\<close> by the field initialiser \<open>config: ViewBuilderConfig = {}\<close>.
\<close>

record ViewBuilderCore =
  name :: string
  schema :: "string option"
  config :: ref

definition ViewBuilderCore_new :: "string \<Rightarrow> string option \<Rightarrow> store \<Rightarrow> ViewBuilderCore \<times> store" where
  "ViewBuilderCore_new n sch s =
     (\<lparr>name = n, schema = sch, config = next_ref s\<rparr>,
      s\<lparr>configs := (configs s)(next_ref s := empty_config), next_ref := Suc (next_ref s)\<rparr>)"

text \<open>
  The setters assign one field of the object \<open>this.config\<close> refers to and return
  \<open>this\<close>. They are written once for every builder: the manual builder extends
  \<open>ViewBuilderCore\<close>.
\<close>

definition ViewBuilderCore_algorithm ::
  "algorithm_t \<Rightarrow> 'a ViewBuilderCore_scheme \<Rightarrow> store \<Rightarrow> 'a ViewBuilderCore_scheme \<times> store" where
  "ViewBuilderCore_algorithm a this s =
     (this, s\<lparr>configs := (configs s)(config this := (configs s (config this))\<lparr>algorithm := Some a\<rparr>)\<rparr>)"

definition ViewBuilderCore_definer ::
  "string \<Rightarrow> 'a ViewBuilderCore_scheme \<Rightarrow> store \<Rightarrow> 'a ViewBuilderCore_scheme \<times> store" where
  "ViewBuilderCore_definer d this s =
     (this, s\<lparr>configs := (configs s)(config this := (configs s (config this))\<lparr>definer := Some d\<rparr>)\<rparr>)"

definition ViewBuilderCore_sqlSecurity ::
  "sqlSecurity_t \<Rightarrow> 'a ViewBuilderCore_scheme \<Rightarrow> store \<Rightarrow> 'a ViewBuilderCore_scheme \<times> store" where
  "ViewBuilderCore_sqlSecurity x this s =
     (this, s\<lparr>configs := (configs s)(config this := (configs s (config this))\<lparr>sqlSecurity := Some x\<rparr>)\<rparr>)"

text \<open>\<open>withCheckOption ?? 'cascaded'\<close>: a missing argument stores \<open>cascaded\<close>.\<close>

definition ViewBuilderCore_withCheckOption ::
  "withCheckOption_t option \<Rightarrow> 'a ViewBuilderCore_scheme \<Rightarrow> store \<Rightarrow> 'a ViewBuilderCore_scheme \<times> store" where
  "ViewBuilderCore_withCheckOption w this s =
     (this, s\<lparr>configs := (configs s)(config this := (configs s (config this))
        \<lparr>withCheckOption := Some (case w of None \<Rightarrow> Cascaded | Some x \<Rightarrow> x)\<rparr>)\<rparr>)"

text \<open>A chain of setter calls on one builder, as a list of calls run from the left.\<close>

datatype setter =
  Set_algorithm algorithm_t
| Set_definer string
| Set_sqlSecurity sqlSecurity_t
| Set_withCheckOption "withCheckOption_t option"

fun call_setter :: "setter \<Rightarrow> 'a ViewBuilderCore_scheme \<Rightarrow> store \<Rightarrow> 'a ViewBuilderCore_scheme \<times> store" where
  "call_setter (Set_algorithm a) this s = ViewBuilderCore_algorithm a this s"
| "call_setter (Set_definer d) this s = ViewBuilderCore_definer d this s"
| "call_setter (Set_sqlSecurity x) this s = ViewBuilderCore_sqlSecurity x this s"
| "call_setter (Set_withCheckOption w) this s = ViewBuilderCore_withCheckOption w this s"

fun call_setters :: "setter list \<Rightarrow> 'a ViewBuilderCore_scheme \<Rightarrow> store \<Rightarrow> 'a ViewBuilderCore_scheme \<times> store" where
  "call_setters [] this s = (this, s)"
| "call_setters (c # cs) this s = (case call_setter c this s of (this', s') \<Rightarrow> call_setters cs this' s')"

subsection \<open>ViewBuilder\<close>

type_synonym ViewBuilder = ViewBuilderCore

definition view_proxy_config :: "string \<Rightarrow> SelectionProxyHandler" where
  "view_proxy_config n =
     \<lparr>aliasName = n, sqlBehavior = Behavior_error, sqlAliasedBehavior = AliasedBehavior_alias,
      replaceOriginalName = True\<rparr>"

text \<open>
  The first statement of \<open>ViewBuilder.as\<close>: a function argument is called, once, with
  \<open>new QueryBuilder()\<close>, and its result is the query; a query argument is the query.
\<close>

definition resolve_query :: "QueryArg \<Rightarrow> store \<Rightarrow> TypedQueryBuilder \<times> store" where
  "resolve_query qb s =
     (case qb of
        Factory f \<Rightarrow>
          (case QueryBuilder_new s of
             (b, s') \<Rightarrow> (f b, s'\<lparr>factory_calls := factory_calls s' @ [b]\<rparr>))
      | Query q \<Rightarrow> (q, s))"

text \<open>
  \<open>ViewBuilder.as\<close>. The selected fields of the query go behind a proxy, the view is
  allocated with a reference to the builder's own configuration object, and the view
  goes behind a proxy with the same handler. The body has no \<open>throw\<close>; the result is
  a sum so that an exception leaving the construction would be an \<open>Inl\<close>.
\<close>

definition ViewBuilder_as ::
  "QueryArg \<Rightarrow> ViewBuilder \<Rightarrow> store \<Rightarrow> error + (ref Proxy \<times> store)" where
  "ViewBuilder_as qb this s =
     (case resolve_query qb s of
        (q, s1) \<Rightarrow>
          (let selectionProxy = view_proxy_config (name this);
               aliasedSelection = ProxiedSelection (Proxy (getSelectedFields q) selectionProxy)
           in case MySqlView_new (Some (config this)) (name this) (schema this)
                     aliasedSelection (Some (inlineParams (getSQL q))) s1 of
                (v, s2) \<Rightarrow> Inr (Proxy v selectionProxy, s2)))"

subsection \<open>ManualViewBuilder\<close>

record ManualViewBuilder = ViewBuilderCore +
  columns :: Selection

definition ManualViewBuilder_new ::
  "string \<Rightarrow> (string \<times> MySqlColumnBuilder) list \<Rightarrow> string option \<Rightarrow> store \<Rightarrow> ManualViewBuilder \<times> store" where
  "ManualViewBuilder_new n cols sch s =
     (case ViewBuilderCore_new n sch s of
        (super, s') \<Rightarrow>
          (ViewBuilderCore.extend super
             (ManualViewBuilder.fields (getTableColumns (mysqlTable n cols))), s'))"

definition ManualViewBuilder_existing :: "ManualViewBuilder \<Rightarrow> store \<Rightarrow> ref Proxy \<times> store" where
  "ManualViewBuilder_existing this s =
     (case MySqlView_new None (name this) (schema this) (PlainSelection (columns this)) None s of
        (v, s') \<Rightarrow> (Proxy v (view_proxy_config (name this)), s'))"

definition ManualViewBuilder_as :: "SQL \<Rightarrow> ManualViewBuilder \<Rightarrow> store \<Rightarrow> ref Proxy \<times> store" where
  "ManualViewBuilder_as q this s =
     (case MySqlView_new (Some (config this)) (name this) (schema this)
             (PlainSelection (columns this)) (Some (inlineParams q)) s of
        (v, s') \<Rightarrow> (Proxy v (view_proxy_config (name this)), s'))"

subsection \<open>Entry points\<close>

datatype AnyViewBuilder = QueryDerived ViewBuilder | Manual ManualViewBuilder

definition mysqlViewWithSchema ::
  "string \<Rightarrow> (string \<times> MySqlColumnBuilder) list option \<Rightarrow> string option \<Rightarrow> store \<Rightarrow> AnyViewBuilder \<times> store" where
  "mysqlViewWithSchema n selection sch s =
     (case selection of
        Some cols \<Rightarrow> (case ManualViewBuilder_new n cols sch s of (b, s') \<Rightarrow> (Manual b, s'))
      | None \<Rightarrow> (case ViewBuilderCore_new n sch s of (b, s') \<Rightarrow> (QueryDerived b, s')))"

definition mysqlView ::
  "string \<Rightarrow> (string \<times> MySqlColumnBuilder) list option \<Rightarrow> store \<Rightarrow> AnyViewBuilder \<times> store" where
  "mysqlView n selection s = mysqlViewWithSchema n selection None s"

text \<open>The dialect configuration seen through a view: its slot, dereferenced.\<close>

definition dialect_config :: "store \<Rightarrow> MySqlView \<Rightarrow> ViewBuilderConfig option" where
  "dialect_config s v = map_option (configs s) (MySqlViewConfig v)"

text \<open>The \<open>QueryBuilder\<close> instances constructed so far, oldest first.\<close>

definition constructed :: "store \<Rightarrow> QueryBuilder list" where
  "constructed s = map QueryBuilder [0..<query_builders s]"

subsection \<open>Sequences of operations\<close>

text \<open>
  What a program can do with the builders of this module once they exist: call a setter
  or a terminal operation on one of them. \<open>run\<close> performs a list of such calls from
  the left and keeps the store.
\<close>

datatype operation =
  Call_setter setter ViewBuilder
| Call_manual_setter setter ManualViewBuilder
| Call_as QueryArg ViewBuilder
| Call_manual_as SQL ManualViewBuilder
| Call_existing ManualViewBuilder

fun run_operation :: "operation \<Rightarrow> store \<Rightarrow> store" where
  "run_operation (Call_setter c b) s = snd (call_setter c b s)"
| "run_operation (Call_manual_setter c b) s = snd (call_setter c b s)"
| "run_operation (Call_as qb b) s = (case ViewBuilder_as qb b s of Inl e \<Rightarrow> s | Inr (p, s') \<Rightarrow> s')"
| "run_operation (Call_manual_as q b) s = snd (ManualViewBuilder_as q b s)"
| "run_operation (Call_existing b) s = snd (ManualViewBuilder_existing b s)"

fun run :: "operation list \<Rightarrow> store \<Rightarrow> store" where
  "run [] s = s"
| "run (x # xs) s = run xs (run_operation x s)"

subsection \<open>Example objects\<close>

definition init_store :: store where
  "init_store =
     \<lparr>configs = (\<lambda>r. empty_config), views = (\<lambda>r. None), next_ref = 0, query_builders = 0,
      factory_calls = []\<rparr>"

text \<open>\<open>select id, count(*) from users where id > ?\<close>, the count left without an alias.\<close>

definition users_id :: MySqlColumn where
  "users_id =
     \<lparr>column_name = ''id'', column_dataType = ''number'', column_notNull = True,
      table_name = ''users'', table_originalName = ''users''\<rparr>"

definition raw_query :: TypedQueryBuilder where
  "raw_query =
     \<lparr>getSelectedFields =
        [(''id'', ColumnField users_id), (''total'', SqlField [StringChunk ''count(*)''])],
      getSQL = [StringChunk ''select id, count(*) from users where id > '', Param ''10'']\<rparr>"

text \<open>\<open>mysqlView('v')\<close> in the initial store: the builder and the store it leaves.\<close>

definition v_builder :: ViewBuilder where
  "v_builder = fst (ViewBuilderCore_new ''v'' None init_store)"

definition v_store :: store where
  "v_store = snd (ViewBuilderCore_new ''v'' None init_store)"

text \<open>
  What \<open>mysqlView('v').as(raw_query)\<close> allocates at address 1 (address 0 holds the
  builder's configuration), and the store it leaves.
\<close>

definition raw_view :: MySqlView where
  "raw_view =
     \<lparr>view_name = ''v'', view_schema = None,
      selectedFields = ProxiedSelection
        (Proxy [(''id'', ColumnField users_id), (''total'', SqlField [StringChunk ''count(*)''])]
           \<lparr>aliasName = ''v'', sqlBehavior = Behavior_error,
            sqlAliasedBehavior = AliasedBehavior_alias, replaceOriginalName = True\<rparr>),
      query = Some [StringChunk ''select id, count(*) from users where id > '', StringChunk ''10''],
      MySqlViewConfig = Some 0\<rparr>"

definition raw_view_store :: store where
  "raw_view_store =
     \<lparr>configs = (\<lambda>r. empty_config), views = (\<lambda>r. None)(1 \<mapsto> raw_view), next_ref = 2,
      query_builders = 0, factory_calls = []\<rparr>"

section \<open>Properties\<close>

subsection \<open>Auxiliary facts\<close>

lemmas setter_defs =
  ViewBuilderCore_algorithm_def ViewBuilderCore_definer_def
  ViewBuilderCore_sqlSecurity_def ViewBuilderCore_withCheckOption_def

lemma config_algorithm_definer_swap:
  "(c::ViewBuilderConfig)\<lparr>algorithm := x, definer := y\<rparr> = c\<lparr>definer := y, algorithm := x\<rparr>"
  by (cases c) simp

lemma const_upd: "(\<lambda>r. c)(a := c) = (\<lambda>r. c)"
  by (rule ext) simp

lemma call_setter_this: "fst (call_setter c this s) = this"
  by (cases c) (simp_all add: setter_defs)

lemma call_setter_frame:
  "views (snd (call_setter c this s)) = views s
   \<and> next_ref (snd (call_setter c this s)) = next_ref s"
  by (cases c) (simp_all add: setter_defs)

lemma resolve_query_frame:
  "views (snd (resolve_query qb s)) = views s
   \<and> next_ref (snd (resolve_query qb s)) = next_ref s
   \<and> configs (snd (resolve_query qb s)) = configs s"
  by (cases qb) (simp_all add: resolve_query_def QueryBuilder_new_def)

text \<open>\<open>ViewBuilder.as\<close> returns on every argument, and this is what it returns.\<close>

lemma as_total:
  "ViewBuilder_as qb this s
     = Inr (Proxy (next_ref (snd (resolve_query qb s))) (view_proxy_config (name this)),
            snd (MySqlView_new (Some (config this)) (name this) (schema this)
              (ProxiedSelection (Proxy (getSelectedFields (fst (resolve_query qb s)))
                 (view_proxy_config (name this))))
              (Some (inlineParams (getSQL (fst (resolve_query qb s)))))
              (snd (resolve_query qb s))))"
  by (simp add: ViewBuilder_as_def MySqlView_new_def Let_def split: prod.splits)

lemma keys_built: "map fst (getTableColumns (mysqlTable n cols)) = map fst cols"
  by (induction cols) (auto simp: getTableColumns_def mysqlTable_def)

lemma new_columns:
  "columns (fst (ManualViewBuilder_new n cols sch s)) = getTableColumns (mysqlTable n cols)"
  by (simp add: ManualViewBuilder_new_def ViewBuilderCore_new_def ViewBuilderCore.extend_def
      ManualViewBuilder.fields_def)

text \<open>
  No operation writes to an address that is already allocated in the store of views, and
  the allocation pointer never moves back.
\<close>

lemma run_operation_frame:
  "next_ref s \<le> next_ref (run_operation x s)
   \<and> (r < next_ref s \<longrightarrow> views (run_operation x s) r = views s r)"
proof (cases x)
  case (Call_setter c b)
  with call_setter_frame [of c b s] show ?thesis by simp
next
  case (Call_manual_setter c b)
  with call_setter_frame [of c b s] show ?thesis by simp
next
  case (Call_as qb b)
  with resolve_query_frame [of qb s] show ?thesis
    by (simp add: as_total MySqlView_new_def)
next
  case (Call_manual_as q b)
  then show ?thesis by (simp add: ManualViewBuilder_as_def MySqlView_new_def)
next
  case (Call_existing b)
  then show ?thesis by (simp add: ManualViewBuilder_existing_def MySqlView_new_def)
qed

lemma run_frame: "r < next_ref s \<Longrightarrow> views (run ops s) r = views s r"
proof (induction ops arbitrary: s)
  case Nil
  show ?case by simp
next
  case (Cons x xs)
  from run_operation_frame [of s x r] Cons.prems
  have a: "r < next_ref (run_operation x s)" and b: "views (run_operation x s) r = views s r"
    by simp_all
  from Cons.IH [OF a] b show ?case by simp
qed

lemma view_new_stable:
  assumes "MySqlView_new c n sch sel q' s' = (r, s1)"
  shows "views s1 r = Some \<lparr>view_name = n, view_schema = sch, selectedFields = sel, query = q',
            MySqlViewConfig = c\<rparr>"
    and "views (run ops s1) r = views s1 r"
proof -
  from assms have r: "r = next_ref s'" and s1: "s1 = snd (MySqlView_new c n sch sel q' s')"
    by (auto simp add: MySqlView_new_def)
  show "views s1 r = Some \<lparr>view_name = n, view_schema = sch, selectedFields = sel, query = q',
            MySqlViewConfig = c\<rparr>"
    by (simp add: r s1 MySqlView_new_def)
  have "r < next_ref s1" by (simp add: r s1 MySqlView_new_def)
  then show "views (run ops s1) r = views s1 r" by (rule run_frame)
qed

lemma as_stable:
  "case ViewBuilder_as qb b s of
      Inl e \<Rightarrow> False
    | Inr (p, s1) \<Rightarrow>
        views (run ops s1) (target p) = views s1 (target p)
        \<and> map_option MySqlViewConfig (views s1 (target p)) = Some (Some (config b))
        \<and> map_option (dialect_config (run ops s1)) (views (run ops s1) (target p))
            = Some (Some (configs (run ops s1) (config b)))"
proof -
  obtain q s0 where rq: "resolve_query qb s = (q, s0)" by (cases "resolve_query qb s")
  obtain r s1 where new: "MySqlView_new (Some (config b)) (name b) (schema b)
      (ProxiedSelection (Proxy (getSelectedFields q) (view_proxy_config (name b))))
      (Some (inlineParams (getSQL q))) s0 = (r, s1)"
    by (cases "MySqlView_new (Some (config b)) (name b) (schema b)
      (ProxiedSelection (Proxy (getSelectedFields q) (view_proxy_config (name b))))
      (Some (inlineParams (getSQL q))) s0")
  from rq new have res: "ViewBuilder_as qb b s = Inr (Proxy r (view_proxy_config (name b)), s1)"
    by (simp add: ViewBuilder_as_def Let_def)
  from view_new_stable(1) [OF new] view_new_stable(2) [OF new, where ops = ops] show ?thesis
    by (simp add: res dialect_config_def)
qed

lemma manual_as_stable:
  "case ManualViewBuilder_as q m s of
     (p, s1) \<Rightarrow>
       views (run ops s1) (target p) = views s1 (target p)
       \<and> map_option MySqlViewConfig (views s1 (target p)) = Some (Some (config m))
       \<and> map_option (dialect_config (run ops s1)) (views (run ops s1) (target p))
           = Some (Some (configs (run ops s1) (config m)))"
proof -
  obtain r s1 where new: "MySqlView_new (Some (config m)) (name m) (schema m)
             (PlainSelection (columns m)) (Some (inlineParams q)) s = (r, s1)"
    by (cases "MySqlView_new (Some (config m)) (name m) (schema m)
             (PlainSelection (columns m)) (Some (inlineParams q)) s")
  from view_new_stable(1) [OF new] view_new_stable(2) [OF new, where ops = ops] show ?thesis
    by (simp add: ManualViewBuilder_as_def new dialect_config_def)
qed

lemma existing_stable:
  "case ManualViewBuilder_existing m s of
     (p, s1) \<Rightarrow>
       views (run ops s1) (target p) = views s1 (target p)
       \<and> map_option MySqlViewConfig (views s1 (target p)) = Some None
       \<and> map_option (dialect_config (run ops s1)) (views (run ops s1) (target p)) = Some None"
proof -
  obtain r s1 where new: "MySqlView_new None (name m) (schema m)
             (PlainSelection (columns m)) None s = (r, s1)"
    by (cases "MySqlView_new None (name m) (schema m) (PlainSelection (columns m)) None s")
  from view_new_stable(1) [OF new] view_new_stable(2) [OF new, where ops = ops] show ?thesis
    by (simp add: ManualViewBuilder_existing_def new dialect_config_def)
qed

subsection \<open>Failure on a raw, unaliased field\<close>

text \<open>
  C1 (as amended). \<open>ViewBuilder.as\<close> returns a descriptor for every argument, also when
  the query selects a raw SQL expression without an alias under the key \<open>k\<close>: the
  construction only puts the selection behind a proxy. The failure comes when field
  \<open>k\<close> of the descriptor's \<open>selectedFields\<close> is read, which yields the error for the
  unaliased field.
\<close>

theorem as_defers_unaliased_field_error:
  assumes "map_of (getSelectedFields (fst (resolve_query qb s))) k = Some (SqlField e)"
  shows "\<exists>p s'. ViewBuilder_as qb this s = Inr (p, s')
           \<and> (\<exists>v. views s' (target p) = Some v
                \<and> get_field (selectedFields v) k = Inl (UnaliasedSqlField k))"
  using assms
  by (simp add: as_total MySqlView_new_def view_proxy_config_def SelectionProxyHandler_get_def)

text \<open>The theorem at \<open>mysqlView('v').as(raw_query)\<close> and the field \<open>total\<close>.\<close>

theorem as_defers_unaliased_field_error_witness:
  "map_of (getSelectedFields (fst (resolve_query (Query raw_query) v_store))) ''total''
     = Some (SqlField [StringChunk ''count(*)''])
   \<and> (\<exists>p s'. ViewBuilder_as (Query raw_query) v_builder v_store = Inr (p, s')
           \<and> (\<exists>v. views s' (target p) = Some v
                \<and> get_field (selectedFields v) ''total'' = Inl (UnaliasedSqlField ''total'')))"
proof -
  have h: "map_of (getSelectedFields (fst (resolve_query (Query raw_query) v_store))) ''total''
     = Some (SqlField [StringChunk ''count(*)''])"
    by (simp add: resolve_query_def raw_query_def)
  from as_defers_unaliased_field_error [OF h, of v_builder] h show ?thesis by simp
qed

text \<open>
  C1 as stated fails: \<open>raw_query\<close> selects the raw expression \<open>count(*)\<close> under
  \<open>total\<close> without an alias, and \<open>mysqlView('v').as(raw_query)\<close> returns the
  descriptor at address 1. Only reading \<open>total\<close> from the descriptor's selected fields
  gives the error.
\<close>

theorem as_with_raw_field_returns_counterexample:
  "map_of (getSelectedFields raw_query) ''total'' = Some (SqlField [StringChunk ''count(*)''])
   \<and> ViewBuilder_as (Query raw_query) v_builder v_store
       = Inr (Proxy 1 (view_proxy_config ''v''), raw_view_store)
   \<and> views raw_view_store 1 = Some raw_view
   \<and> get_field (selectedFields raw_view) ''total'' = Inl (UnaliasedSqlField ''total'')"
  by (simp add: raw_query_def ViewBuilder_as_def resolve_query_def v_builder_def v_store_def
      ViewBuilderCore_new_def init_store_def MySqlView_new_def view_proxy_config_def
      raw_view_store_def raw_view_def inlineParams_def SelectionProxyHandler_get_def
      Let_def const_upd)

subsection \<open>What later operations do to a descriptor\<close>

text \<open>
  C2 (as amended). Take the descriptor a terminal operation has just allocated and run
  any list \<open>ops\<close> of further setter calls and terminal operations, on the builder that
  produced it or on any other. The view object is unchanged: its name, schema,
  selectedFields, query and the reference in its dialect-configuration slot stay as
  constructed. For \<open>existing\<close> the slot is \<open>undefined\<close> and stays so. For the two
  \<open>as\<close> operations the slot refers to the builder's own configuration object, so the
  dialect configuration read through the descriptor is, at every later time, the current
  configuration of that builder.
\<close>

theorem descriptor_stable_config_shared:
  "(case ViewBuilder_as qb b s of
      Inl e \<Rightarrow> False
    | Inr (p, s1) \<Rightarrow>
        views (run ops s1) (target p) = views s1 (target p)
        \<and> map_option MySqlViewConfig (views s1 (target p)) = Some (Some (config b))
        \<and> map_option (dialect_config (run ops s1)) (views (run ops s1) (target p))
            = Some (Some (configs (run ops s1) (config b))))
   \<and> (case ManualViewBuilder_as q m s of
        (p, s1) \<Rightarrow>
          views (run ops s1) (target p) = views s1 (target p)
          \<and> map_option MySqlViewConfig (views s1 (target p)) = Some (Some (config m))
          \<and> map_option (dialect_config (run ops s1)) (views (run ops s1) (target p))
              = Some (Some (configs (run ops s1) (config m))))
   \<and> (case ManualViewBuilder_existing m s of
        (p, s1) \<Rightarrow>
          views (run ops s1) (target p) = views s1 (target p)
          \<and> map_option MySqlViewConfig (views s1 (target p)) = Some None
          \<and> map_option (dialect_config (run ops s1)) (views (run ops s1) (target p))
              = Some None)"
  using as_stable [where qb = qb and b = b and s = s and ops = ops]
    manual_as_stable [where q = q and m = m and s = s and ops = ops]
    existing_stable [where m = m and s = s and ops = ops]
  by simp

text \<open>
  C2 as stated fails: \<open>mysqlView('v').as(raw_query)\<close> yields the descriptor
  \<open>raw_view\<close> with an empty dialect configuration; calling \<open>algorithm('merge')\<close> on
  the same builder afterwards leaves the view object as it is, and the dialect
  configuration read through it now has \<open>algorithm = 'merge'\<close>.
\<close>

theorem setter_after_as_counterexample:
  "ViewBuilder_as (Query raw_query) v_builder v_store
       = Inr (Proxy 1 (view_proxy_config ''v''), raw_view_store)
   \<and> views raw_view_store 1 = Some raw_view
   \<and> dialect_config raw_view_store raw_view = Some empty_config
   \<and> views (snd (ViewBuilderCore_algorithm Algorithm_merge v_builder raw_view_store)) 1
       = Some raw_view
   \<and> dialect_config (snd (ViewBuilderCore_algorithm Algorithm_merge v_builder raw_view_store))
         raw_view
       = Some (empty_config\<lparr>algorithm := Some Algorithm_merge\<rparr>)
   \<and> empty_config\<lparr>algorithm := Some Algorithm_merge\<rparr> \<noteq> empty_config"
  by (simp add: raw_query_def ViewBuilder_as_def resolve_query_def v_builder_def v_store_def
      ViewBuilderCore_new_def init_store_def MySqlView_new_def view_proxy_config_def
      raw_view_store_def raw_view_def inlineParams_def dialect_config_def
      ViewBuilderCore_algorithm_def Let_def const_upd empty_config_def)

subsection \<open>The manual builder\<close>

text \<open>
  C3. \<open>existing()\<close> on any manual builder allocates a view with the builder's name,
  schema and columns, no query and no dialect configuration. In particular, for every
  name, column mapping and schema, the builder constructed from them yields a descriptor
  whose query is \<open>undefined\<close> and whose dialect-configuration slot is \<open>undefined\<close>.
\<close>

theorem existing_no_query_no_config:
  "(case ManualViewBuilder_existing this s of
      (p, s') \<Rightarrow>
        views s' (target p)
          = Some \<lparr>view_name = name this, view_schema = schema this,
                  selectedFields = PlainSelection (columns this), query = None,
                  MySqlViewConfig = None\<rparr>)
   \<and> (case ManualViewBuilder_new n cols sch s of
        (b, s1) \<Rightarrow>
          (case ManualViewBuilder_existing b s1 of
             (p, s2) \<Rightarrow>
               map_option query (views s2 (target p)) = Some None
               \<and> map_option MySqlViewConfig (views s2 (target p)) = Some None
               \<and> map_option (dialect_config s2) (views s2 (target p)) = Some None))"
  by (simp add: ManualViewBuilder_existing_def ManualViewBuilder_new_def MySqlView_new_def
      ViewBuilderCore_new_def dialect_config_def split: prod.splits)

text \<open>
  C4. For the manual builder constructed from a name and a column mapping, the keys of
  the descriptor's selectedFields are the keys of the column mapping, in the same order,
  for \<open>existing()\<close> and for \<open>as(query)\<close>.
\<close>

theorem manual_view_keys_roundtrip:
  "(case ManualViewBuilder_new n cols sch s of
      (b, s1) \<Rightarrow>
        (case ManualViewBuilder_existing b s1 of
           (p, s2) \<Rightarrow>
             map_option (keys \<circ> selectedFields) (views s2 (target p)) = Some (map fst cols))
        \<and> (case ManualViewBuilder_as q b s1 of
             (p, s2) \<Rightarrow>
               map_option (keys \<circ> selectedFields) (views s2 (target p))
                 = Some (map fst cols)))"
  using new_columns [of n cols sch s] keys_built [of n cols]
  by (auto simp add: ManualViewBuilder_existing_def ManualViewBuilder_as_def MySqlView_new_def
      split: prod.splits)

text \<open>
  C9. After any chain of setter calls on a manual builder, \<open>existing()\<close> still yields a
  descriptor whose dialect-configuration slot is \<open>undefined\<close>: the options accumulated
  in the builder's configuration object are not passed on. The call does not touch the
  configuration objects either.
\<close>

theorem existing_discards_dialect_options:
  "(case call_setters cs this s of
      (t, s1) \<Rightarrow>
        (case ManualViewBuilder_existing t s1 of
           (p, s2) \<Rightarrow>
             map_option MySqlViewConfig (views s2 (target p)) = Some None
             \<and> map_option (dialect_config s2) (views s2 (target p)) = Some None
             \<and> configs s2 = configs s1))"
  by (simp add: ManualViewBuilder_existing_def MySqlView_new_def dialect_config_def
      split: prod.splits)

subsection \<open>The query-derived builder\<close>

text \<open>
  C5. Given a function, \<open>ViewBuilder.as\<close> constructs one \<open>QueryBuilder\<close>, which is
  none of those constructed before, and calls the function once, with that instance: the
  record of calls grows by exactly this one. The descriptor's query is the SQL of the
  function's result with the parameters inlined and its selectedFields are the selected
  fields of that result behind the proxy. Given a query, no function is called and no
  \<open>QueryBuilder\<close> is constructed, and the descriptor is built from the query the same way.
\<close>

theorem as_query_and_selection:
  "ViewBuilder_as (Factory f) this s
     = Inr (Proxy (next_ref s) (view_proxy_config (name this)),
         s\<lparr>views := (views s)(next_ref s \<mapsto>
              \<lparr>view_name = name this, view_schema = schema this,
               selectedFields = ProxiedSelection
                 (Proxy (getSelectedFields (f (QueryBuilder (query_builders s))))
                    (view_proxy_config (name this))),
               query = Some (inlineParams (getSQL (f (QueryBuilder (query_builders s))))),
               MySqlViewConfig = Some (config this)\<rparr>),
           next_ref := Suc (next_ref s),
           query_builders := Suc (query_builders s),
           factory_calls := factory_calls s @ [QueryBuilder (query_builders s)]\<rparr>)
   \<and> QueryBuilder (query_builders s) \<notin> set (constructed s)
   \<and> ViewBuilder_as (Query q) this s
     = Inr (Proxy (next_ref s) (view_proxy_config (name this)),
         s\<lparr>views := (views s)(next_ref s \<mapsto>
              \<lparr>view_name = name this, view_schema = schema this,
               selectedFields = ProxiedSelection
                 (Proxy (getSelectedFields q) (view_proxy_config (name this))),
               query = Some (inlineParams (getSQL q)),
               MySqlViewConfig = Some (config this)\<rparr>),
           next_ref := Suc (next_ref s)\<rparr>)"
  by (auto simp add: ViewBuilder_as_def resolve_query_def QueryBuilder_new_def MySqlView_new_def
      constructed_def Let_def)

subsection \<open>The proxy configuration\<close>

text \<open>
  C6. The three terminal operations put the view behind a proxy whose handler has the
  view's name as alias, \<open>sqlBehavior = error\<close>, \<open>sqlAliasedBehavior = alias\<close> and
  \<open>replaceOriginalName = true\<close>; \<open>ViewBuilder.as\<close> puts the selected fields of the
  query behind a proxy with the same handler.
\<close>

theorem terminal_operations_proxy_config:
  "handler (fst (ManualViewBuilder_existing m s))
     = \<lparr>aliasName = name m, sqlBehavior = Behavior_error,
        sqlAliasedBehavior = AliasedBehavior_alias, replaceOriginalName = True\<rparr>
   \<and> handler (fst (ManualViewBuilder_as q m s))
     = \<lparr>aliasName = name m, sqlBehavior = Behavior_error,
        sqlAliasedBehavior = AliasedBehavior_alias, replaceOriginalName = True\<rparr>
   \<and> (case ViewBuilder_as qb b s of
        Inl e \<Rightarrow> False
      | Inr (p, s') \<Rightarrow>
          handler p
            = \<lparr>aliasName = name b, sqlBehavior = Behavior_error,
               sqlAliasedBehavior = AliasedBehavior_alias, replaceOriginalName = True\<rparr>
          \<and> map_option selectedFields (views s' (target p))
            = Some (ProxiedSelection (Proxy (getSelectedFields (fst (resolve_query qb s)))
                \<lparr>aliasName = name b, sqlBehavior = Behavior_error,
                 sqlAliasedBehavior = AliasedBehavior_alias, replaceOriginalName = True\<rparr>)))"
  by (simp add: ManualViewBuilder_existing_def ManualViewBuilder_as_def ViewBuilder_as_def
      MySqlView_new_def view_proxy_config_def Let_def split: prod.splits)

subsection \<open>The setters\<close>

text \<open>
  C7. On every builder and in every store, \<open>withCheckOption()\<close> without an argument
  returns the same builder and leaves the same store as \<open>withCheckOption('cascaded')\<close>,
  and the builder's configuration then has \<open>withCheckOption = 'cascaded'\<close>.
\<close>

theorem withCheckOption_default_cascaded:
  "ViewBuilderCore_withCheckOption None this s
     = ViewBuilderCore_withCheckOption (Some Cascaded) this s
   \<and> withCheckOption (configs (snd (ViewBuilderCore_withCheckOption None this s)) (config this))
     = Some Cascaded
   \<and> withCheckOption
       (configs (snd (ViewBuilderCore_withCheckOption (Some Cascaded) this s)) (config this))
     = Some Cascaded"
  by (simp add: ViewBuilderCore_withCheckOption_def)

text \<open>
  C8. On every builder and in every store, \<open>algorithm(a).definer(d)\<close> and
  \<open>definer(d).algorithm(a)\<close> return the same builder and leave the same store; the
  builder's configuration is the earlier one with both fields set.
\<close>

theorem algorithm_definer_commute:
  "(case ViewBuilderCore_algorithm a this s of (t, s1) \<Rightarrow> ViewBuilderCore_definer d t s1)
     = (case ViewBuilderCore_definer d this s of (t, s1) \<Rightarrow> ViewBuilderCore_algorithm a t s1)
   \<and> configs (snd (case ViewBuilderCore_algorithm a this s of
                      (t, s1) \<Rightarrow> ViewBuilderCore_definer d t s1)) (config this)
     = (configs s (config this))\<lparr>algorithm := Some a, definer := Some d\<rparr>"
  by (simp add: ViewBuilderCore_algorithm_def ViewBuilderCore_definer_def
      config_algorithm_definer_swap)

text \<open>
  C10. Each setter replaces its own field of the builder's configuration object and
  nothing else in the store of configurations; calling the same setter twice leaves what
  the second call alone would leave. After \<open>algorithm(a)\<close> then \<open>algorithm(a')\<close> the
  stored algorithm is \<open>a'\<close>, and definer, sqlSecurity and withCheckOption are what they
  were before the two calls.
\<close>

theorem setter_frame_last_write_wins:
  "configs (snd (ViewBuilderCore_algorithm a this s))
     = (configs s)(config this := (configs s (config this))\<lparr>algorithm := Some a\<rparr>)
   \<and> configs (snd (ViewBuilderCore_definer d this s))
     = (configs s)(config this := (configs s (config this))\<lparr>definer := Some d\<rparr>)
   \<and> configs (snd (ViewBuilderCore_sqlSecurity x this s))
     = (configs s)(config this := (configs s (config this))\<lparr>sqlSecurity := Some x\<rparr>)
   \<and> configs (snd (ViewBuilderCore_withCheckOption w this s))
     = (configs s)(config this := (configs s (config this))
         \<lparr>withCheckOption := Some (case w of None \<Rightarrow> Cascaded | Some y \<Rightarrow> y)\<rparr>)
   \<and> configs (snd (case ViewBuilderCore_algorithm a this s of
                      (t, s1) \<Rightarrow> ViewBuilderCore_algorithm a' t s1))
     = configs (snd (ViewBuilderCore_algorithm a' this s))
   \<and> configs (snd (case ViewBuilderCore_definer d this s of
                      (t, s1) \<Rightarrow> ViewBuilderCore_definer d' t s1))
     = configs (snd (ViewBuilderCore_definer d' this s))
   \<and> configs (snd (case ViewBuilderCore_sqlSecurity x this s of
                      (t, s1) \<Rightarrow> ViewBuilderCore_sqlSecurity x' t s1))
     = configs (snd (ViewBuilderCore_sqlSecurity x' this s))
   \<and> configs (snd (case ViewBuilderCore_withCheckOption w this s of
                      (t, s1) \<Rightarrow> ViewBuilderCore_withCheckOption w' t s1))
     = configs (snd (ViewBuilderCore_withCheckOption w' this s))
   \<and> algorithm (configs (snd (case ViewBuilderCore_algorithm a this s of
                      (t, s1) \<Rightarrow> ViewBuilderCore_algorithm a' t s1)) (config this))
     = Some a'
   \<and> definer (configs (snd (case ViewBuilderCore_algorithm a this s of
                      (t, s1) \<Rightarrow> ViewBuilderCore_algorithm a' t s1)) (config this))
     = definer (configs s (config this))
   \<and> sqlSecurity (configs (snd (case ViewBuilderCore_algorithm a this s of
                      (t, s1) \<Rightarrow> ViewBuilderCore_algorithm a' t s1)) (config this))
     = sqlSecurity (configs s (config this))
   \<and> withCheckOption (configs (snd (case ViewBuilderCore_algorithm a this s of
                      (t, s1) \<Rightarrow> ViewBuilderCore_algorithm a' t s1)) (config this))
     = withCheckOption (configs s (config this))"
  by (simp add: setter_defs)

end
